theory Spec2Isabelle
  imports Complex_Main "HOL-Library.AList" "HOL-Library.DAList"
begin

section \<open>Values\<close>

text \<open>
  The plugin (\<^verbatim>\<open>src/main.ts\<close>) keeps one scalar per document. At run time the
  \<^verbatim>\<open>scroll\<close> member of an \<^verbatim>\<open>EphemeralState\<close> is a JavaScript value of one of four
  shapes: it is missing (\<^verbatim>\<open>undefined\<close>), it is \<^verbatim>\<open>null\<close> (what \<^verbatim>\<open>JSON.parse\<close> gives
  back for a \<^verbatim>\<open>NaN\<close> that \<^verbatim>\<open>JSON.stringify\<close> wrote), it is \<^verbatim>\<open>NaN\<close>, or it is a
  finite number. Finite numbers are modelled as reals; infinities are left out, the
  host's scroll offset being a finite pixel or line offset.
\<close>

datatype jsval = Undefined | Null | NaN | Number real

text \<open>JavaScript truthiness (\<^verbatim>\<open>if (v)\<close>, \<^verbatim>\<open>!v\<close>, \<^verbatim>\<open>a && b\<close>) on these values.\<close>

fun truthy :: "jsval \<Rightarrow> bool" where
  "truthy Undefined = False"
| "truthy Null = False"
| "truthy NaN = False"
| "truthy (Number r) = (r \<noteq> 0)"

text \<open>The loose comparison \<^verbatim>\<open>a != b\<close> is the negation of \<^verbatim>\<open>a == b\<close>.\<close>

fun loose_eq :: "jsval \<Rightarrow> jsval \<Rightarrow> bool" where
  "loose_eq (Number a) (Number b) = (a = b)"
| "loose_eq Undefined Undefined = True"
| "loose_eq Undefined Null = True"
| "loose_eq Null Undefined = True"
| "loose_eq Null Null = True"
| "loose_eq _ _ = False"

text \<open>The global \<^verbatim>\<open>isNaN(v)\<close> converts with \<^verbatim>\<open>Number(v)\<close> first: \<^verbatim>\<open>Number(undefined)\<close>
  is \<^verbatim>\<open>NaN\<close>, \<^verbatim>\<open>Number(null)\<close> is \<^verbatim>\<open>0\<close>.\<close>

fun isNaN :: "jsval \<Rightarrow> bool" where
  "isNaN Undefined = True"
| "isNaN Null = False"
| "isNaN NaN = True"
| "isNaN (Number r) = False"

text \<open>
  \<^verbatim>\<open>Number(x.toFixed(4))\<close> on a finite number: the nearest multiple of \<open>1/10000\<close>, the
  larger one on a tie, computed on the absolute value; from \<open>10\<^sup>2\<^sup>1\<close> on \<^verbatim>\<open>toFixed\<close>
  prints the number itself.
\<close>

definition toFixed4 :: "real \<Rightarrow> real" where
  "toFixed4 x =
     (if 10 ^ 21 \<le> \<bar>x\<bar> then x
      else sgn x * of_int \<lfloor>\<bar>x\<bar> * 10000 + 1 / 2\<rfloor> / 10000)"

subsection \<open>EphemeralState\<close>

text \<open>\<^verbatim>\<open>interface EphemeralState { scroll?: number }\<close>\<close>

record EphemeralState =
  scroll :: jsval

text \<open>
  \<^verbatim>\<open>isEphemeralStatesEquals\<close> (lines 162 to 173), one \<^verbatim>\<open>if\<close> of the source per
  branch.
\<close>

definition isEphemeralStatesEquals :: "EphemeralState \<Rightarrow> EphemeralState \<Rightarrow> bool" where
  "isEphemeralStatesEquals state1 state2 =
     (if truthy (scroll state1) \<and> \<not> truthy (scroll state2) then False
      else if \<not> truthy (scroll state1) \<and> truthy (scroll state2) then False
      else if truthy (scroll state1) \<and> \<not> loose_eq (scroll state1) (scroll state2) then False
      else True)"

text \<open>
  The equality rule in the words of the specification: two states are equal iff both
  define \<^verbatim>\<open>scroll\<close> with the identical value, or both leave it undefined.
\<close>

definition spec_states_equal :: "EphemeralState \<Rightarrow> EphemeralState \<Rightarrow> bool" where
  "spec_states_equal s1 s2 =
     ((scroll s1 \<noteq> Undefined \<and> scroll s2 \<noteq> Undefined \<and> scroll s1 = scroll s2)
      \<or> (scroll s1 = Undefined \<and> scroll s2 = Undefined))"

section \<open>Objects and JSON\<close>

text \<open>
  \<^verbatim>\<open>db\<close> and \<^verbatim>\<open>lastSavedDb\<close> are plain JavaScript objects used as dictionaries from
  document paths to states. An object is its list of own properties in the order they
  were created, with no key twice; a property may hold \<^verbatim>\<open>undefined\<close> (\<open>None\<close>), which is
  what \<^verbatim>\<open>renameFile\<close> stores when the old path has no entry. (A JavaScript engine lists
  keys that are array indices, such as \<^verbatim>\<open>"12"\<close>, before all others; document paths
  are taken not to be of that form.)

  The prototype of these objects is \<^verbatim>\<open>Object.prototype\<close>, so reading a key that is no
  own property gives the member of \<^verbatim>\<open>Object.prototype\<close> of that name, if there is one.
  The values the plugin can meet in a dictionary are therefore states and such members:
  \<open>Inherited k\<close> is the member \<open>k\<close>, a function for every name but \<^verbatim>\<open>__proto__\<close>,
  for which it is the object \<^verbatim>\<open>Object.prototype\<close> itself. A member is an object, so
  it is truthy, and it has no \<^verbatim>\<open>scroll\<close>.
\<close>

datatype dbval = State EphemeralState | Inherited string

definition Object_prototype :: "string list" where
  "Object_prototype =
     [''constructor'', ''__defineGetter__'', ''__defineSetter__'', ''hasOwnProperty'',
      ''__lookupGetter__'', ''__lookupSetter__'', ''isPrototypeOf'', ''propertyIsEnumerable'',
      ''toString'', ''valueOf'', ''__proto__'', ''toLocaleString'']"

definition inherited :: "string \<Rightarrow> dbval option" where
  "inherited k = (if k \<in> set Object_prototype then Some (Inherited k) else None)"

text \<open>\<^verbatim>\<open>v.scroll\<close> for a value \<open>v\<close>.\<close>

fun scroll_of :: "dbval \<Rightarrow> jsval" where
  "scroll_of (State st) = scroll st"
| "scroll_of (Inherited k) = Undefined"

type_synonym Db = "(string, dbval option) alist"

text \<open>The own property \<open>k\<close> of an object: \<open>None\<close> when there is none and when it holds
  \<^verbatim>\<open>undefined\<close>. The entries of a dictionary are its own properties that hold a value.\<close>

definition own_prop :: "Db \<Rightarrow> string \<Rightarrow> dbval option" where
  "own_prop obj k = (case DAList.lookup obj k of None \<Rightarrow> None | Some v \<Rightarrow> v)"


text \<open>\<^verbatim>\<open>obj[k]\<close>: the own property if there is one, also when it holds \<^verbatim>\<open>undefined\<close>,
  and the inherited member otherwise. The plugin reads its dictionaries in no other way,
  apart from \<^verbatim>\<open>JSON.stringify\<close>.\<close>

definition get_prop :: "Db \<Rightarrow> string \<Rightarrow> dbval option" where
  "get_prop obj k = (case DAList.lookup obj k of None \<Rightarrow> inherited k | Some v \<Rightarrow> v)"

text \<open>
  \<^verbatim>\<open>obj[k] = v\<close>: an existing property keeps its place, a new one goes last. Every
  member of \<^verbatim>\<open>Object.prototype\<close> but one is a writable data property, which an own
  property of the same name shadows. The exception is \<^verbatim>\<open>__proto__\<close>, an accessor: on
  an object without an own property of that name (\<^verbatim>\<open>JSON.parse\<close> creates one for a
  member of that name), the assignment creates no property; it replaces the prototype of
  the object when the assigned value is an object and does nothing when it is
  \<^verbatim>\<open>undefined\<close>. The model has no prototype to replace and stores the value as a
  property. For an assigned state this reads back under \<^verbatim>\<open>__proto__\<close> as the replaced
  prototype does, but the own properties differ, as does what the key \<^verbatim>\<open>scroll\<close>
  inherits afterwards. The statements below about own properties and about reachable
  states therefore leave the assignment to \<^verbatim>\<open>__proto__\<close> out.
\<close>

definition set_prop :: "string \<Rightarrow> dbval option \<Rightarrow> Db \<Rightarrow> Db" where
  "set_prop k v obj = DAList.update k v obj"

text \<open>\<^verbatim>\<open>delete obj[k]\<close>\<close>

definition delete_prop :: "string \<Rightarrow> Db \<Rightarrow> Db" where
  "delete_prop k obj = DAList.delete k obj"

text \<open>
  The characters of a JSON text are not modelled. A text is either one that
  \<^verbatim>\<open>JSON.parse\<close> rejects, or the document it denotes: an object whose members, in the
  order written, are states, each written \<^verbatim>\<open>{}\<close>, \<^verbatim>\<open>{"scroll":null}\<close> or
  \<^verbatim>\<open>{"scroll":r}\<close>; well-formed texts of any other shape are left out.
  \<^verbatim>\<open>JSON.stringify\<close> writes no white space and prints a number in
  its shortest form that reads back as the same number, so two texts it produces are the
  same string exactly when they denote the same document.
\<close>

datatype json_state = JEmpty | JScrollNull | JScroll real

datatype json_text = Malformed | Document "(string \<times> json_state) list"

datatype error = IOError | SyntaxError

text \<open>\<^verbatim>\<open>JSON.stringify\<close> leaves out a member that is \<^verbatim>\<open>undefined\<close> or a function and
  writes \<^verbatim>\<open>NaN\<close> as \<^verbatim>\<open>null\<close>; \<^verbatim>\<open>Object.prototype\<close>, which has no enumerable property,
  is written \<^verbatim>\<open>{}\<close>.\<close>

fun stringify_state :: "EphemeralState \<Rightarrow> json_state" where
  "stringify_state st =
     (case scroll st of
        Undefined \<Rightarrow> JEmpty
      | Null \<Rightarrow> JScrollNull
      | NaN \<Rightarrow> JScrollNull
      | Number r \<Rightarrow> JScroll r)"

fun members :: "(string \<times> dbval option) list \<Rightarrow> (string \<times> json_state) list" where
  "members [] = []"
| "members ((k, None) # ps) = members ps"
| "members ((k, Some (State st)) # ps) = (k, stringify_state st) # members ps"
| "members ((k, Some (Inherited n)) # ps) =
     (if n = ''__proto__'' then (k, JEmpty) # members ps else members ps)"

definition JSON_stringify :: "Db \<Rightarrow> json_text" where
  "JSON_stringify obj = Document (members (DAList.impl_of obj))"

fun parse_state :: "json_state \<Rightarrow> EphemeralState" where
  "parse_state JEmpty = \<lparr>scroll = Undefined\<rparr>"
| "parse_state JScrollNull = \<lparr>scroll = Null\<rparr>"
| "parse_state (JScroll r) = \<lparr>scroll = Number r\<rparr>"

text \<open>\<^verbatim>\<open>JSON.parse\<close> defines the members one after the other on a fresh object, so a
  key written twice keeps its first place and its last value.\<close>

fun parse_members :: "(string \<times> json_state) list \<Rightarrow> Db \<Rightarrow> Db" where
  "parse_members [] obj = obj"
| "parse_members ((k, j) # ms) obj =
     parse_members ms (set_prop k (Some (State (parse_state j))) obj)"

definition JSON_parse :: "json_text \<Rightarrow> error + Db" where
  "JSON_parse t =
     (case t of
        Malformed \<Rightarrow> Inl SyntaxError
      | Document ms \<Rightarrow> Inr (parse_members ms DAList.empty))"

section \<open>The host\<close>

subsection \<open>The vault adapter\<close>

text \<open>
  The store the adapter works on: the files with their texts, the folders, and whether
  reading and writing succeed. \<open>calls\<close> records the modifying calls the plugin has
  issued, the latest last.
\<close>

datatype call = Mkdir string | Write string json_text

record Disk =
  files :: "string \<Rightarrow> json_text option"
  folders :: "string set"
  readable :: bool
  writable :: bool
  calls :: "call list"

definition adapter_exists :: "Disk \<Rightarrow> string \<Rightarrow> bool" where
  "adapter_exists d path = (files d path \<noteq> None \<or> path \<in> folders d)"

definition adapter_read :: "Disk \<Rightarrow> string \<Rightarrow> error + json_text" where
  "adapter_read d path =
     (case files d path of
        None \<Rightarrow> Inl IOError
      | Some t \<Rightarrow> if readable d then Inr t else Inl IOError)"

definition adapter_mkdir :: "string \<Rightarrow> Disk \<Rightarrow> Disk" where
  "adapter_mkdir path d =
     d\<lparr>folders := (if writable d then insert path (folders d) else folders d),
       calls := calls d @ [Mkdir path]\<rparr>"

definition adapter_write :: "string \<Rightarrow> json_text \<Rightarrow> Disk \<Rightarrow> Disk" where
  "adapter_write path t d =
     d\<lparr>files := (if writable d then (files d)(path \<mapsto> t) else files d),
       calls := calls d @ [Write path t]\<rparr>"

fun is_Write :: "call \<Rightarrow> bool" where
  "is_Write (Write path t) = True"
| "is_Write (Mkdir path) = False"

text \<open>The number of \<^verbatim>\<open>adapter.write\<close> calls issued so far.\<close>

definition writes :: "Disk \<Rightarrow> nat" where
  "writes d = length (filter is_Write (calls d))"

subsection \<open>The workspace\<close>

text \<open>
  What the plugin reads from the workspace at one moment: the active file's path
  (\<^verbatim>\<open>getActiveFile()?.path\<close>), the active Markdown view with what its
  \<^verbatim>\<open>currentMode.getScroll()\<close> returns, the most recent leaf, all leaves, and whether a
  \<^verbatim>\<open>span.is-flashing\<close> element is present. The host changes it between any two steps
  of the plugin; every operation below takes the workspace as it is at that step.
\<close>

record MarkdownView =
  getScroll :: jsval

record Leaf =
  leaf_id :: string
  view_type :: string
  state_file :: "string option"

record Workspace =
  activeFile :: "string option"
  activeView :: "MarkdownView option"
  mostRecentLeaf :: "Leaf option"
  allLeaves :: "Leaf list"
  flashing :: bool

text \<open>A path or \<^verbatim>\<open>undefined\<close> in a condition: the empty string is falsy too.\<close>

fun truthy_path :: "string option \<Rightarrow> bool" where
  "truthy_path None = False"
| "truthy_path (Some s) = (s \<noteq> [])"

text \<open>\<^verbatim>\<open>leaf.id + ':' + leaf.getViewState().state.file\<close>\<close>

definition leaf_key :: "Leaf \<Rightarrow> string" where
  "leaf_key leaf =
     leaf_id leaf @ '':'' @ (case state_file leaf of None \<Rightarrow> ''undefined'' | Some f \<Rightarrow> f)"

section \<open>The plugin\<close>

record PluginSettings =
  dbFileName :: string
  delayAfterFileOpening :: int
  saveTimer :: int

definition SAFE_DB_FLUSH_INTERVAL :: int where
  "SAFE_DB_FLUSH_INTERVAL = 5000"

definition DEFAULT_SETTINGS :: PluginSettings where
  "DEFAULT_SETTINGS =
     \<lparr>dbFileName = ''.obsidian/plugins/remember-scroll-position/scroll-positions.json'',
      delayAfterFileOpening = 100,
      saveTimer = SAFE_DB_FLUSH_INTERVAL\<rparr>"

text \<open>What \<^verbatim>\<open>loadData()\<close> returns: each setting saved or not.\<close>

record SavedData =
  saved_dbFileName :: "string option"
  saved_delayAfterFileOpening :: "int option"
  saved_saveTimer :: "int option"

definition loadSettings :: "SavedData \<Rightarrow> PluginSettings" where
  "loadSettings data =
     (let settings =
        \<lparr>dbFileName =
           (case saved_dbFileName data of None \<Rightarrow> dbFileName DEFAULT_SETTINGS | Some v \<Rightarrow> v),
         delayAfterFileOpening =
           (case saved_delayAfterFileOpening data of
              None \<Rightarrow> delayAfterFileOpening DEFAULT_SETTINGS | Some v \<Rightarrow> v),
         saveTimer =
           (case saved_saveTimer data of None \<Rightarrow> saveTimer DEFAULT_SETTINGS | Some v \<Rightarrow> v)\<rparr>
      in if saveTimer settings < SAFE_DB_FLUSH_INTERVAL
         then settings\<lparr>saveTimer := SAFE_DB_FLUSH_INTERVAL\<rparr>
         else settings)"

text \<open>
  The fields of \<^verbatim>\<open>RememberScrollPosition\<close>. \<^verbatim>\<open>lastEphemeralState\<close> and
  \<^verbatim>\<open>lastLoadedFileName\<close> start \<^verbatim>\<open>undefined\<close>. \<^verbatim>\<open>lastEphemeralState\<close> is assigned
  what was read from \<^verbatim>\<open>db\<close>, so it holds a value. The throttle timer is left out: the
  model speaks of the moment \<^verbatim>\<open>checkEphemeralStateChanged\<close> runs, not of when.
\<close>

record Plugin =
  settings :: PluginSettings
  db :: Db
  lastSavedDb :: Db
  lastEphemeralState :: "dbval option"
  lastLoadedFileName :: "string option"
  loadedLeafIdList :: "string list"
  loadingFile :: bool

subsection \<open>Rename and delete\<close>

text \<open>\<^verbatim>\<open>renameFile(file, oldPath)\<close>, with \<open>newName\<close> for \<^verbatim>\<open>file.path\<close> (lines 130 to
  135). \<^verbatim>\<open>this.db[oldName]\<close> is a read through the prototype, so for an old path
  such as \<^verbatim>\<open>constructor\<close> that has no entry a member of \<^verbatim>\<open>Object.prototype\<close> is
  stored under the new path.\<close>

definition renameFile :: "string \<Rightarrow> string \<Rightarrow> Plugin \<Rightarrow> Plugin" where
  "renameFile newName oldName p =
     (let db1 = set_prop newName (get_prop (db p) oldName) (db p)
      in p\<lparr>db := delete_prop oldName db1\<rparr>)"

text \<open>\<^verbatim>\<open>deleteFile(file)\<close>, with \<open>fileName\<close> for \<^verbatim>\<open>file.path\<close> (lines 138 to 141).\<close>

definition deleteFile :: "string \<Rightarrow> Plugin \<Rightarrow> Plugin" where
  "deleteFile fileName p = p\<lparr>db := delete_prop fileName (db p)\<rparr>"

subsection \<open>Sampling and change detection\<close>

text \<open>\<^verbatim>\<open>getEphemeralState\<close> (lines 260 to 264): without a view, or when
  \<^verbatim>\<open>getScroll()\<close> gives no number, \<^verbatim>\<open>Number(undefined)\<close> or \<^verbatim>\<open>Number("NaN")\<close> is
  \<^verbatim>\<open>NaN\<close>.\<close>

definition getEphemeralState :: "Workspace \<Rightarrow> EphemeralState" where
  "getEphemeralState ws =
     \<lparr>scroll =
        (case activeView ws of
           None \<Rightarrow> NaN
         | Some view \<Rightarrow>
             (case getScroll view of Number r \<Rightarrow> Number (toFixed4 r) | _ \<Rightarrow> NaN))\<rparr>"

text \<open>\<^verbatim>\<open>setEphemeralState\<close> (lines 266 to 271), called with what was read from
  \<^verbatim>\<open>db\<close>. The host's \<^verbatim>\<open>view.setEphemeralState(state)\<close> scrolls the view to
  \<^verbatim>\<open>state.scroll\<close>.\<close>

definition setEphemeralState :: "Workspace \<Rightarrow> dbval \<Rightarrow> Workspace" where
  "setEphemeralState ws state =
     (case activeView ws of
        None \<Rightarrow> ws
      | Some view \<Rightarrow>
          if truthy (scroll_of state)
          then ws\<lparr>activeView := Some (view\<lparr>getScroll := scroll_of state\<rparr>)\<rparr>
          else ws)"

text \<open>\<^verbatim>\<open>saveEphemeralState\<close> (lines 176 to 181); it has no \<^verbatim>\<open>await\<close>, so it runs
  to its end when called.\<close>

definition saveEphemeralState :: "Workspace \<Rightarrow> EphemeralState \<Rightarrow> Plugin \<Rightarrow> Plugin" where
  "saveEphemeralState ws st p =
     (case activeFile ws of
        None \<Rightarrow> p
      | Some fileName \<Rightarrow>
          if fileName \<noteq> [] \<and> Some fileName = lastLoadedFileName p
          then p\<lparr>db := set_prop fileName (Some (State st)) (db p)\<rparr>
          else p)"

text \<open>\<^verbatim>\<open>checkEphemeralStateChanged\<close> (lines 144 to 160). The baseline is a value;
  \<^verbatim>\<open>isEphemeralStatesEquals\<close> reads nothing of it but its \<^verbatim>\<open>scroll\<close>.\<close>

definition checkEphemeralStateChanged :: "Workspace \<Rightarrow> Plugin \<Rightarrow> Plugin" where
  "checkEphemeralStateChanged ws p =
     (let fileName = activeFile ws in
      if \<not> truthy_path fileName \<or> \<not> truthy_path (lastLoadedFileName p)
         \<or> fileName \<noteq> lastLoadedFileName p \<or> loadingFile p
      then p
      else
        let st = getEphemeralState ws;
            baseline = (case lastEphemeralState p of None \<Rightarrow> State st | Some b \<Rightarrow> b);
            p1 = p\<lparr>lastEphemeralState := Some baseline\<rparr>
        in if \<not> isNaN (scroll st)
              \<and> \<not> isEphemeralStatesEquals st \<lparr>scroll = scroll_of baseline\<rparr>
           then (saveEphemeralState ws st p1)\<lparr>lastEphemeralState := Some (State st)\<rparr>
           else p1)"

subsection \<open>Restoring\<close>

text \<open>
  \<^verbatim>\<open>restoreEphemeralState\<close> (lines 184 to 230) is asynchronous: it runs to its first
  \<^verbatim>\<open>await\<close>, and the rest runs later, after other handlers may have run and the
  workspace may have changed. What is left to run is a task, holding the local variables
  \<^verbatim>\<open>fileName\<close> and \<^verbatim>\<open>st\<close>: \<open>Settling\<close> waits for \<^verbatim>\<open>delay(delayAfterFileOpening)\<close>,
  \<open>Applying\<close> for \<^verbatim>\<open>delay(10)\<close>. \<^verbatim>\<open>st\<close> is \<^verbatim>\<open>this.db[fileName]\<close>, read through the
  prototype.
\<close>

datatype task = Finished | Settling string dbval | Applying string dbval

definition restoreEphemeralState :: "Workspace \<Rightarrow> Plugin \<Rightarrow> Plugin \<times> task" where
  "restoreEphemeralState ws p =
     (let fileName = activeFile ws in
      if truthy_path fileName \<and> loadingFile p \<and> lastLoadedFileName p = fileName
      then (p, Finished)
      else if (case mostRecentLeaf ws of
                 None \<Rightarrow> False
               | Some activeLeaf \<Rightarrow> leaf_key activeLeaf \<in> set (loadedLeafIdList p))
      then (p, Finished)
      else
        let p1 = p\<lparr>loadedLeafIdList :=
                      map leaf_key (filter (\<lambda>leaf. view_type leaf = ''markdown'') (allLeaves ws)),
                    loadingFile := True\<rparr>
        in if lastLoadedFileName p1 \<noteq> fileName
           then
             let p2 = p1\<lparr>lastEphemeralState := Some (State \<lparr>scroll = Undefined\<rparr>),
                         lastLoadedFileName := fileName\<rparr>;
                 nothing_saved = (p2\<lparr>lastEphemeralState := None, loadingFile := False\<rparr>, Finished)
             in (case fileName of
                   None \<Rightarrow> nothing_saved
                 | Some f \<Rightarrow>
                     if f \<noteq> []
                     then (case get_prop (db p2) f of
                             None \<Rightarrow> nothing_saved
                           | Some st \<Rightarrow> (p2, Settling f st))
                     else nothing_saved)
           else (p1\<lparr>loadingFile := False\<rparr>, Finished))"

text \<open>The rest of \<^verbatim>\<open>restoreEphemeralState\<close> from an \<^verbatim>\<open>await\<close> to the next one or to
  the end (lines 218 to 229), with the plugin and the workspace as they are then. The
  third component is the workspace after the step.\<close>

fun resume :: "Workspace \<Rightarrow> task \<Rightarrow> Plugin \<Rightarrow> Plugin \<times> task \<times> Workspace" where
  "resume ws Finished p = (p, Finished, ws)"
| "resume ws (Settling fileName st) p =
     (if \<not> flashing ws
      then (p, Applying fileName st, ws)
      else (p\<lparr>lastEphemeralState := Some st, loadingFile := False\<rparr>, Finished, ws))"
| "resume ws (Applying fileName st) p =
     (p\<lparr>lastEphemeralState := Some st, loadingFile := False\<rparr>, Finished,
      setEphemeralState ws st)"

subsection \<open>Reading and writing the store\<close>

text \<open>\<^verbatim>\<open>readDb\<close> (lines 232 to 241); a rejected \<^verbatim>\<open>read\<close> and a \<^verbatim>\<open>JSON.parse\<close> that
  throws are the \<open>Inl\<close> results.\<close>

definition readDb :: "PluginSettings \<Rightarrow> Disk \<Rightarrow> error + Db" where
  "readDb s d =
     (if adapter_exists d (dbFileName s)
      then (case adapter_read d (dbFileName s) of
              Inl e \<Rightarrow> Inl e
            | Inr data \<Rightarrow> JSON_parse data)
      else Inr DAList.empty)"

text \<open>\<^verbatim>\<open>s.lastIndexOf(c)\<close>, \<open>-1\<close> when \<open>c\<close> does not occur, and \<^verbatim>\<open>s.substring(0, n)\<close>.\<close>

fun lastIndexOf :: "char \<Rightarrow> string \<Rightarrow> int" where
  "lastIndexOf c [] = - 1"
| "lastIndexOf c (x # xs) =
     (let i = lastIndexOf c xs
      in if 0 \<le> i then i + 1 else if x = c then 0 else - 1)"

definition substring0 :: "string \<Rightarrow> int \<Rightarrow> string" where
  "substring0 s n = take (nat n) s"

text \<open>
  \<^verbatim>\<open>writeDb(db)\<close> (lines 243 to 256). \<^verbatim>\<open>mkdir\<close> and \<^verbatim>\<open>write\<close> are called without
  \<^verbatim>\<open>await\<close>: whether they succeed is not known to the lines that follow. The
  comparison reads \<^verbatim>\<open>this.db\<close>, the text written is that of the argument.
\<close>

definition writeDb :: "Db \<Rightarrow> Plugin \<Rightarrow> Disk \<Rightarrow> Plugin \<times> Disk" where
  "writeDb db_arg p d =
     (let name = dbFileName (settings p);
          newParentFolder = substring0 name (lastIndexOf CHR ''/'' name);
          d1 = (if \<not> adapter_exists d newParentFolder
                then adapter_mkdir newParentFolder d else d)
      in if JSON_stringify (db p) \<noteq> JSON_stringify (lastSavedDb p)
         then
           let d2 = adapter_write name (JSON_stringify db_arg) d1
           in (case JSON_parse (JSON_stringify db_arg) of
                 Inl e \<Rightarrow> (p, d2)
               | Inr copy \<Rightarrow> (p\<lparr>lastSavedDb := copy\<rparr>, d2))
         else (p, d1))"

text \<open>A flush, as the interval timer and the \<^verbatim>\<open>quit\<close> handler call it:
  \<^verbatim>\<open>this.writeDb(this.db)\<close>.\<close>

definition flush :: "Plugin \<Rightarrow> Disk \<Rightarrow> Plugin \<times> Disk" where
  "flush p d = writeDb (db p) p d"

subsection \<open>Startup\<close>

text \<open>
  \<^verbatim>\<open>onload\<close> (lines 32 to 74). \<open>d1\<close> and \<open>d2\<close> are the store at the first and at the
  second \<^verbatim>\<open>readDb\<close>. The body of the \<^verbatim>\<open>try\<close> is \<open>read_both\<close>; an error of either read
  is caught and both dictionaries start empty. Registering the handlers changes no field;
  the last line starts a first restore.
\<close>

definition read_both :: "PluginSettings \<Rightarrow> Disk \<Rightarrow> Disk \<Rightarrow> error + (Db \<times> Db)" where
  "read_both s d1 d2 =
     (case readDb s d1 of
        Inl e \<Rightarrow> Inl e
      | Inr a \<Rightarrow> (case readDb s d2 of Inl e \<Rightarrow> Inl e | Inr b \<Rightarrow> Inr (a, b)))"

definition onload :: "SavedData \<Rightarrow> Disk \<Rightarrow> Disk \<Rightarrow> Workspace \<Rightarrow> Plugin \<times> task" where
  "onload data d1 d2 ws =
     (let s = loadSettings data;
          (db0, saved0) = (case read_both s d1 d2 of
                             Inl e \<Rightarrow> (DAList.empty, DAList.empty)
                           | Inr both \<Rightarrow> both)
      in restoreEphemeralState ws
           \<lparr>settings = s, db = db0, lastSavedDb = saved0, lastEphemeralState = None,
            lastLoadedFileName = None, loadedLeafIdList = [], loadingFile = False\<rparr>)"

subsection \<open>Reachable states\<close>


subsection \<open>A whole restore\<close>

text \<open>
  The two resumptions of a restore that has been started, with the workspace at each of
  them, and a restore from its start. The result is the plugin at the end and the last
  workspace, scrolled by the plugin or not. How the view is left depends on the task and
  on the two workspaces only, not on the plugin's fields, so handlers that run in between
  do not change it.
\<close>

definition settle :: "Workspace \<Rightarrow> Workspace \<Rightarrow> Plugin \<times> task \<Rightarrow> Plugin \<times> Workspace" where
  "settle ws2 ws3 started =
     (let (p1, t1) = started;
          (p2, t2, w2) = resume ws2 t1 p1;
          (p3, t3, w3) = resume ws3 t2 p2
      in (p3, w3))"

definition restore_run ::
  "Workspace \<Rightarrow> Workspace \<Rightarrow> Workspace \<Rightarrow> Plugin \<Rightarrow> Plugin \<times> Workspace" where
  "restore_run ws1 ws2 ws3 p = settle ws2 ws3 (restoreEphemeralState ws1 p)"

section \<open>A run of the plugin\<close>

text \<open>
  The concrete inputs used below. The store holds the durable file at the default path,
  with the given text or none; the workspace shows one Markdown leaf with the given file
  at the given offset and no flashing span; no settings have been saved.
\<close>

definition no_data :: SavedData where
  "no_data =
     \<lparr>saved_dbFileName = None, saved_delayAfterFileOpening = None, saved_saveTimer = None\<rparr>"

definition store_with :: "json_text option \<Rightarrow> bool \<Rightarrow> bool \<Rightarrow> Disk" where
  "store_with t r w =
     \<lparr>files = (\<lambda>path. if path = dbFileName DEFAULT_SETTINGS then t else None),
      folders = {''.obsidian/plugins/remember-scroll-position''},
      readable = r, writable = w, calls = []\<rparr>"

definition showing :: "string \<Rightarrow> real \<Rightarrow> Workspace" where
  "showing f y =
     \<lparr>activeFile = Some f,
      activeView = Some \<lparr>getScroll = Number y\<rparr>,
      mostRecentLeaf = Some \<lparr>leaf_id = ''leaf1'', view_type = ''markdown'', state_file = Some f\<rparr>,
      allLeaves = [\<lparr>leaf_id = ''leaf1'', view_type = ''markdown'', state_file = Some f\<rparr>],
      flashing = False\<rparr>"

text \<open>A dictionary with one entry.\<close>

abbreviation entry :: "string \<Rightarrow> real \<Rightarrow> Db" where
  "entry f y \<equiv> set_prop f (Some (State \<lparr>scroll = Number y\<rparr>)) DAList.empty"

text \<open>
  The store is \<^verbatim>\<open>{"notes/a.md":{"scroll":12.5}}\<close> and the plugin is loaded while
  \<^verbatim>\<open>notes/a.md\<close> is shown: \<open>started_a\<close> is the plugin with the restore that waits for
  the delay after opening. In \<open>restored_a\<close> both delays have passed with nothing else
  happening; in \<open>scrolled_a\<close> the user has then scrolled to \<open>40\<close> and the change has
  been detected. In \<open>opened_b\<close> the user has instead opened \<^verbatim>\<open>notes/b.md\<close> while the
  restore for \<^verbatim>\<open>notes/a.md\<close> was still waiting.
\<close>

definition store_a :: Disk where
  "store_a = store_with (Some (Document [(''notes/a.md'', JScroll 12.5)])) True True"

definition started_a :: "Plugin \<times> task" where
  "started_a = onload no_data store_a store_a (showing ''notes/a.md'' 0)"

definition restored_a :: "Plugin \<times> Workspace" where
  "restored_a = settle (showing ''notes/a.md'' 0) (showing ''notes/a.md'' 0) started_a"

definition scrolled_a :: Plugin where
  "scrolled_a = checkEphemeralStateChanged (showing ''notes/a.md'' 40) (fst restored_a)"

definition opened_b :: "Plugin \<times> task" where
  "opened_b = restoreEphemeralState (showing ''notes/b.md'' 0) (fst started_a)"


text \<open>The same store when writing to it fails.\<close>

definition store_failing :: Disk where
  "store_failing = store_with (Some (Document [(''notes/a.md'', JScroll 12.5)])) True False"

text \<open>The plugin loaded with no durable file, while \<^verbatim>\<open>notes/a.md\<close> is shown.\<close>

definition fresh_a :: "Plugin \<times> task" where
  "fresh_a = onload no_data (store_with None True True) (store_with None True True)
     (showing ''notes/a.md'' 0)"

text \<open>The store is \<^verbatim>\<open>{"notes/a.md":{"scroll":0}}\<close> and the plugin is loaded while
  \<^verbatim>\<open>notes/b.md\<close> is shown.\<close>

definition store_top :: Disk where
  "store_top = store_with (Some (Document [(''notes/a.md'', JScroll 0)])) True True"

definition started_top :: "Plugin \<times> task" where
  "started_top = onload no_data store_top store_top (showing ''notes/b.md'' 0)"

section \<open>Notions used in the statements\<close>





section \<open>Equality of states\<close>

lemma loose_eq_truthy: "truthy a \<Longrightarrow> truthy b \<Longrightarrow> loose_eq a b = (a = b)"
  by (cases a; cases b) simp_all

text \<open>
  C1 (counterexample). The state \<^verbatim>\<open>{scroll: 0}\<close> and the state \<^verbatim>\<open>{}\<close> are equal for
  \<^verbatim>\<open>isEphemeralStatesEquals\<close>, since \<^verbatim>\<open>0\<close> is falsy in all three tests, although the
  first defines \<^verbatim>\<open>scroll\<close> and the second does not.
\<close>

theorem isEphemeralStatesEquals_zero_undefined:
  "isEphemeralStatesEquals \<lparr>scroll = Number 0\<rparr> \<lparr>scroll = Undefined\<rparr> = True
   \<and> spec_states_equal \<lparr>scroll = Number 0\<rparr> \<lparr>scroll = Undefined\<rparr> = False"
  by (simp add: isEphemeralStatesEquals_def spec_states_equal_def)

text \<open>
  C1 (amended). \<^verbatim>\<open>isEphemeralStatesEquals(s1, s2)\<close> is true iff both states hold a
  truthy \<^verbatim>\<open>scroll\<close> (a number other than \<^verbatim>\<open>0\<close>) with the identical value, or
  neither holds a truthy \<^verbatim>\<open>scroll\<close> (each is undefined, \<^verbatim>\<open>null\<close>, \<^verbatim>\<open>NaN\<close> or \<^verbatim>\<open>0\<close>).
\<close>

theorem isEphemeralStatesEquals_iff:
  "isEphemeralStatesEquals s1 s2 =
     ((truthy (scroll s1) \<and> truthy (scroll s2) \<and> scroll s1 = scroll s2)
      \<or> (\<not> truthy (scroll s1) \<and> \<not> truthy (scroll s2)))"
  unfolding isEphemeralStatesEquals_def
  by (cases "truthy (scroll s1)"; cases "truthy (scroll s2)") (simp_all add: loose_eq_truthy)

section \<open>Dictionaries and the JSON round trip\<close>

lemma get_prop_set_prop:
  "get_prop (set_prop k v obj) k' = (if k = k' then v else get_prop obj k')"
  by (simp add: get_prop_def set_prop_def DAList.lookup_update)

lemma get_prop_delete_prop:
  "get_prop (delete_prop k obj) k' = (if k' = k then inherited k else get_prop obj k')"
  by (simp add: get_prop_def delete_prop_def)

lemma get_prop_empty: "get_prop DAList.empty k = inherited k"
  by (simp add: get_prop_def)

lemma own_prop_set_prop:
  "own_prop (set_prop k v obj) k' = (if k = k' then v else own_prop obj k')"
  by (simp add: own_prop_def set_prop_def DAList.lookup_update)

lemma own_prop_delete_prop: "own_prop (delete_prop k obj) = (own_prop obj)(k := None)"
  by (rule ext) (simp add: own_prop_def delete_prop_def)

lemma own_prop_empty: "own_prop DAList.empty k = None"
  by (simp add: own_prop_def)



lemma get_prop_not_inherited: "k \<notin> set Object_prototype \<Longrightarrow> get_prop obj k = own_prop obj k"
  by (simp add: get_prop_def own_prop_def inherited_def split: option.splits)

lemma inherited_path [simp]: "inherited (CHR ''n'' # k) = None"
  by (simp add: inherited_def Object_prototype_def)































section \<open>The run, evaluated\<close>

lemma stringify_entry: "JSON_stringify (entry f y) = Document [(f, JScroll y)]"
  by (simp add: JSON_stringify_def set_prop_def DAList.update.rep_eq DAList.empty.rep_eq)

lemma loadSettings_no_data: "loadSettings no_data = DEFAULT_SETTINGS"
  by (simp add: loadSettings_def no_data_def DEFAULT_SETTINGS_def Let_def)

lemma readDb_store_a: "readDb DEFAULT_SETTINGS store_a = Inr (entry ''notes/a.md'' 12.5)"
  by (simp add: readDb_def store_a_def store_with_def adapter_exists_def adapter_read_def
      JSON_parse_def)

lemma started_a_value:
  "started_a =
    (\<lparr>settings = DEFAULT_SETTINGS,
      db = entry ''notes/a.md'' 12.5,
      lastSavedDb = entry ''notes/a.md'' 12.5,
      lastEphemeralState = Some (State \<lparr>scroll = Undefined\<rparr>),
      lastLoadedFileName = Some ''notes/a.md'',
      loadedLeafIdList = [''leaf1:notes/a.md''],
      loadingFile = True\<rparr>,
     Settling ''notes/a.md'' (State \<lparr>scroll = Number 12.5\<rparr>))"
  by (simp add: started_a_def onload_def loadSettings_no_data read_both_def readDb_store_a
      restoreEphemeralState_def showing_def leaf_key_def get_prop_set_prop Let_def)

lemma restored_a_value:
  "restored_a =
    (\<lparr>settings = DEFAULT_SETTINGS,
      db = entry ''notes/a.md'' 12.5,
      lastSavedDb = entry ''notes/a.md'' 12.5,
      lastEphemeralState = Some (State \<lparr>scroll = Number 12.5\<rparr>),
      lastLoadedFileName = Some ''notes/a.md'',
      loadedLeafIdList = [''leaf1:notes/a.md''],
      loadingFile = False\<rparr>,
     showing ''notes/a.md'' 12.5)"
  by (simp add: restored_a_def settle_def started_a_value showing_def setEphemeralState_def)

lemma sample_40: "getEphemeralState (showing f 40) = \<lparr>scroll = Number 40\<rparr>"
  by (simp add: getEphemeralState_def showing_def toFixed4_def)

lemma scrolled_a_value:
  "scrolled_a =
    \<lparr>settings = DEFAULT_SETTINGS,
     db = entry ''notes/a.md'' 40,
     lastSavedDb = entry ''notes/a.md'' 12.5,
     lastEphemeralState = Some (State \<lparr>scroll = Number 40\<rparr>),
     lastLoadedFileName = Some ''notes/a.md'',
     loadedLeafIdList = [''leaf1:notes/a.md''],
     loadingFile = False\<rparr>"
  by (simp add: scrolled_a_def restored_a_value checkEphemeralStateChanged_def sample_40
      isEphemeralStatesEquals_def saveEphemeralState_def Let_def set_prop_def)
    (simp add: showing_def set_prop_def)

lemma opened_b_value:
  "opened_b =
    (\<lparr>settings = DEFAULT_SETTINGS,
      db = entry ''notes/a.md'' 12.5,
      lastSavedDb = entry ''notes/a.md'' 12.5,
      lastEphemeralState = None,
      lastLoadedFileName = Some ''notes/b.md'',
      loadedLeafIdList = [''leaf1:notes/b.md''],
      loadingFile = False\<rparr>,
     Finished)"
  by (simp add: opened_b_def started_a_value restoreEphemeralState_def showing_def leaf_key_def
      get_prop_set_prop get_prop_empty Let_def)

lemma fresh_a_value:
  "fresh_a =
    (\<lparr>settings = DEFAULT_SETTINGS,
      db = DAList.empty,
      lastSavedDb = DAList.empty,
      lastEphemeralState = None,
      lastLoadedFileName = Some ''notes/a.md'',
      loadedLeafIdList = [''leaf1:notes/a.md''],
      loadingFile = False\<rparr>,
     Finished)"
  by (simp add: fresh_a_def onload_def loadSettings_no_data read_both_def readDb_def
      store_with_def adapter_exists_def DEFAULT_SETTINGS_def
      restoreEphemeralState_def showing_def leaf_key_def get_prop_empty Let_def)

lemma readDb_store_top: "readDb DEFAULT_SETTINGS store_top = Inr (entry ''notes/a.md'' 0)"
  by (simp add: readDb_def store_top_def store_with_def adapter_exists_def adapter_read_def
      JSON_parse_def)

lemma started_top_value:
  "started_top =
    (\<lparr>settings = DEFAULT_SETTINGS,
      db = entry ''notes/a.md'' 0,
      lastSavedDb = entry ''notes/a.md'' 0,
      lastEphemeralState = None,
      lastLoadedFileName = Some ''notes/b.md'',
      loadedLeafIdList = [''leaf1:notes/b.md''],
      loadingFile = False\<rparr>,
     Finished)"
  by (simp add: started_top_def onload_def loadSettings_no_data read_both_def readDb_store_top
      restoreEphemeralState_def showing_def leaf_key_def get_prop_set_prop get_prop_empty Let_def)

section \<open>Rename and delete notifications\<close>

text \<open>
  The entry of a cache at a key is its own property at that key, \<open>own_prop db k\<close>, and a
  key is absent when there is none, \<open>own_prop db k = None\<close>: either the cache has no
  such property or the property holds \<^verbatim>\<open>undefined\<close>. What \<^verbatim>\<open>db[k]\<close> reads is
  \<open>get_prop db k\<close>, which for the names of \<^verbatim>\<open>Object.prototype\<close> can be a member of
  it where the cache has no entry.

  C2 (counterexample). The vault has a folder \<^verbatim>\<open>constructor\<close> at its root, for which
  the cache has no entry, and the folder is renamed to \<^verbatim>\<open>x\<close>. \<^verbatim>\<open>this.db[oldName]\<close>
  is then the function \<^verbatim>\<open>Object\<close>, inherited from \<^verbatim>\<open>Object.prototype\<close>, and
  \<^verbatim>\<open>renameFile\<close> stores it under \<^verbatim>\<open>x\<close>: the old key was absent before the rename and
  the new key is not absent afterwards. For what \<^verbatim>\<open>db[k]\<close> reads, the old key still gives
  that function after the rename.
\<close>

theorem renameFile_copies_inherited_member:
  "own_prop (db (fst started_a)) ''constructor'' = None
   \<and> own_prop (db (renameFile ''x'' ''constructor'' (fst started_a))) ''x''
       = Some (Inherited ''constructor'')
   \<and> get_prop (db (renameFile ''x'' ''constructor'' (fst started_a))) ''x''
       = Some (Inherited ''constructor'')
   \<and> get_prop (db (renameFile ''x'' ''constructor'' (fst started_a))) ''constructor''
       = Some (Inherited ''constructor'')"
  by (simp add: started_a_value renameFile_def get_prop_set_prop own_prop_set_prop
      own_prop_delete_prop own_prop_empty get_prop_delete_prop get_prop_empty inherited_def
      Object_prototype_def)

text \<open>
  C2 (amended). For every prior cache state and every pair of distinct paths, the old one
  not the name of a member of \<^verbatim>\<open>Object.prototype\<close> and the new one not \<^verbatim>\<open>__proto__\<close>,
  after \<^verbatim>\<open>renameFile\<close> the entry at the new key is the one that was at the old key before
  (none if there was none), the old key is absent, and every other key is as before. The
  same holds for what \<^verbatim>\<open>db[k]\<close> reads at the two keys.
\<close>

theorem renameFile_moves_entry:
  assumes "oldName \<noteq> newName"
    and "oldName \<notin> set Object_prototype"
    and "newName \<noteq> ''__proto__''"
  shows "own_prop (db (renameFile newName oldName p)) newName = own_prop (db p) oldName
    \<and> own_prop (db (renameFile newName oldName p)) oldName = None
    \<and> own_prop (db (renameFile newName oldName p)) =
        (own_prop (db p))(newName := own_prop (db p) oldName, oldName := None)
    \<and> get_prop (db (renameFile newName oldName p)) newName = get_prop (db p) oldName
    \<and> get_prop (db (renameFile newName oldName p)) oldName = None"
proof -
  have old: "get_prop (db p) oldName = own_prop (db p) oldName"
    using assms(2) by (rule get_prop_not_inherited)
  have "own_prop (db (renameFile newName oldName p)) k =
      ((own_prop (db p))(newName := own_prop (db p) oldName, oldName := None)) k" for k
    using assms(1) by (simp add: renameFile_def old own_prop_set_prop own_prop_delete_prop)
  then have own: "own_prop (db (renameFile newName oldName p)) =
      (own_prop (db p))(newName := own_prop (db p) oldName, oldName := None)"
    by (intro ext)
  have new_read: "get_prop (db (renameFile newName oldName p)) newName = get_prop (db p) oldName"
    using assms(1) by (simp add: renameFile_def get_prop_set_prop get_prop_delete_prop)
  have old_read: "get_prop (db (renameFile newName oldName p)) oldName = None"
    using assms(2) by (simp add: renameFile_def get_prop_delete_prop inherited_def)
  show ?thesis
    using own new_read old_read assms(1) by simp
qed

text \<open>Witness for C2: \<^verbatim>\<open>notes/a.md\<close>, which has an entry, renamed to \<^verbatim>\<open>notes/b.md\<close>,
  and \<^verbatim>\<open>notes/b.md\<close>, which has none, renamed to \<^verbatim>\<open>notes/a.md\<close>.\<close>

theorem renameFile_moves_entry_witness:
  "''notes/a.md'' \<noteq> ''notes/b.md''
   \<and> ''notes/a.md'' \<notin> set Object_prototype \<and> ''notes/b.md'' \<notin> set Object_prototype
   \<and> ''notes/b.md'' \<noteq> ''__proto__'' \<and> ''notes/a.md'' \<noteq> ''__proto__''
   \<and> own_prop (db (fst started_a)) ''notes/a.md'' = Some (State \<lparr>scroll = Number 12.5\<rparr>)
   \<and> own_prop (db (fst started_a)) ''notes/b.md'' = None
   \<and> own_prop (db (renameFile ''notes/b.md'' ''notes/a.md'' (fst started_a))) ''notes/b.md''
       = Some (State \<lparr>scroll = Number 12.5\<rparr>)
   \<and> own_prop (db (renameFile ''notes/b.md'' ''notes/a.md'' (fst started_a))) ''notes/a.md'' = None
   \<and> get_prop (db (renameFile ''notes/b.md'' ''notes/a.md'' (fst started_a))) ''notes/b.md''
       = Some (State \<lparr>scroll = Number 12.5\<rparr>)
   \<and> own_prop (db (renameFile ''notes/a.md'' ''notes/b.md'' (fst started_a))) ''notes/a.md'' = None
   \<and> get_prop (db (renameFile ''notes/a.md'' ''notes/b.md'' (fst started_a))) ''notes/a.md'' = None"
proof -
  have names: "''notes/a.md'' \<notin> set Object_prototype \<and> ''notes/b.md'' \<notin> set Object_prototype"
    by (simp add: Object_prototype_def)
  have before: "own_prop (db (fst started_a)) ''notes/a.md'' = Some (State \<lparr>scroll = Number 12.5\<rparr>)
      \<and> own_prop (db (fst started_a)) ''notes/b.md'' = None
      \<and> get_prop (db (fst started_a)) ''notes/a.md'' = Some (State \<lparr>scroll = Number 12.5\<rparr>)
      \<and> get_prop (db (fst started_a)) ''notes/b.md'' = None"
    by (simp add: started_a_value own_prop_set_prop own_prop_empty get_prop_set_prop
        get_prop_empty)
  show ?thesis
    using renameFile_moves_entry [of "''notes/a.md''" "''notes/b.md''" "fst started_a"]
      renameFile_moves_entry [of "''notes/b.md''" "''notes/a.md''" "fst started_a"]
      names before
    by simp
qed

text \<open>
  C9. For every document and every prior cache state, after \<^verbatim>\<open>deleteFile\<close> the cache
  has no entry for the document, and the entries of all other keys are unchanged.
\<close>

theorem deleteFile_removes_entry:
  "own_prop (db (deleteFile fileName p)) fileName = None
   \<and> own_prop (db (deleteFile fileName p)) = (own_prop (db p))(fileName := None)"
  by (simp add: deleteFile_def own_prop_delete_prop)

section \<open>Flushing\<close>

lemma writes_adapter_mkdir: "writes (adapter_mkdir path d) = writes d"
  by (simp add: writes_def adapter_mkdir_def)

lemma writes_adapter_write: "writes (adapter_write path t d) = Suc (writes d)"
  by (simp add: writes_def adapter_write_def)

lemma JSON_parse_stringify:
  "JSON_parse (JSON_stringify obj) = Inr (parse_members (members (DAList.impl_of obj)) DAList.empty)"
  by (simp add: JSON_parse_def JSON_stringify_def)

lemma writes_flush:
  "writes (snd (flush p d)) =
     writes d + (if JSON_stringify (db p) = JSON_stringify (lastSavedDb p) then 0 else 1)"
  by (simp add: flush_def writeDb_def Let_def JSON_parse_stringify writes_adapter_mkdir
      writes_adapter_write)

lemma fst_flush:
  "fst (flush p d) =
     (if JSON_stringify (db p) = JSON_stringify (lastSavedDb p) then p
      else p\<lparr>lastSavedDb := parse_members (members (DAList.impl_of (db p))) DAList.empty\<rparr>)"
  by (simp add: flush_def writeDb_def Let_def JSON_parse_stringify)



text \<open>What a flush leaves in the plugin does not depend on the store, and so not on
  whether the write succeeds.\<close>

lemma fst_flush_any_store: "fst (flush p d) = fst (flush p d')"
  by (simp add: fst_flush)

text \<open>
  C4 (the code at a failing write). The cache holds \<open>40\<close> for \<^verbatim>\<open>notes/a.md\<close>, the
  shadow cache and the durable file hold \<open>12.5\<close>, and writing fails. The flush issues
  its one \<^verbatim>\<open>write\<close>, the file stays as it was, and the shadow cache is replaced all the
  same: \<^verbatim>\<open>write\<close> is not awaited, so the assignment to \<^verbatim>\<open>lastSavedDb\<close> runs whatever
  becomes of it. The next flush sees no difference and writes nothing.
\<close>

theorem failed_write_replaces_shadow:
  "writable store_failing = False
   \<and> JSON_stringify (db scrolled_a) = Document [(''notes/a.md'', JScroll 40)]
   \<and> JSON_stringify (lastSavedDb scrolled_a) = Document [(''notes/a.md'', JScroll 12.5)]
   \<and> files (snd (flush scrolled_a store_failing)) (dbFileName DEFAULT_SETTINGS)
       = Some (Document [(''notes/a.md'', JScroll 12.5)])
   \<and> lastSavedDb (fst (flush scrolled_a store_failing)) = entry ''notes/a.md'' 40
   \<and> writes (snd (flush scrolled_a store_failing)) = 1
   \<and> writes (snd (flush (fst (flush scrolled_a store_failing))
        (snd (flush scrolled_a store_failing)))) = 1"
proof -
  have written: "JSON_stringify (db scrolled_a) = Document [(''notes/a.md'', JScroll 40)]"
    by (simp add: scrolled_a_value stringify_entry)
  have saved: "JSON_stringify (lastSavedDb scrolled_a) = Document [(''notes/a.md'', JScroll 12.5)]"
    by (simp add: scrolled_a_value stringify_entry)
  have first: "flush scrolled_a store_failing =
      (scrolled_a\<lparr>lastSavedDb := entry ''notes/a.md'' 40\<rparr>,
       store_failing\<lparr>calls := [Write (dbFileName DEFAULT_SETTINGS)
         (Document [(''notes/a.md'', JScroll 40)])]\<rparr>)"
    unfolding flush_def writeDb_def Let_def written saved
    by (simp add: JSON_parse_def adapter_write_def adapter_exists_def)
      (simp add: scrolled_a_value store_failing_def store_with_def DEFAULT_SETTINGS_def substring0_def)
  show ?thesis
    unfolding first
    by (simp add: written saved writes_flush stringify_entry)
      (simp add: store_failing_def store_with_def writes_def)
qed

section \<open>Writing the cache and reading it back\<close>










section \<open>Startup\<close>

lemma db_onload_failed:
  "read_both (loadSettings data) d1 d2 = Inl e \<Longrightarrow>
   db (fst (onload data d1 d2 ws)) = DAList.empty
   \<and> lastSavedDb (fst (onload data d1 d2 ws)) = DAList.empty"
  by (simp add: onload_def Let_def restoreEphemeralState_def split: option.splits)

lemma db_onload_read:
  "read_both (loadSettings data) d1 d2 = Inr (a, b) \<Longrightarrow>
   db (fst (onload data d1 d2 ws)) = a \<and> lastSavedDb (fst (onload data d1 d2 ws)) = b"
  by (simp add: onload_def Let_def restoreEphemeralState_def split: option.splits)

text \<open>
  C8. \<^verbatim>\<open>readDb\<close> gives the empty dictionary when the durable file does not exist, and
  fails when the file cannot be read or its text is malformed. \<^verbatim>\<open>onload\<close> is total: the
  only calls in it that can fail are the two reads, and when either fails both the cache
  and the shadow cache start empty, as they do when the file does not exist.
\<close>

theorem onload_survives_read_failure:
  "(\<not> adapter_exists d (dbFileName s) \<longrightarrow> readDb s d = Inr DAList.empty)
   \<and> (adapter_exists d (dbFileName s) \<and> \<not> readable d \<longrightarrow> readDb s d = Inl IOError)
   \<and> (readable d \<and> files d (dbFileName s) = Some Malformed \<longrightarrow> readDb s d = Inl SyntaxError)
   \<and> ((\<exists>e. readDb (loadSettings data) d1 = Inl e) \<or> (\<exists>e. readDb (loadSettings data) d2 = Inl e)
        \<longrightarrow> db (fst (onload data d1 d2 ws)) = DAList.empty
            \<and> lastSavedDb (fst (onload data d1 d2 ws)) = DAList.empty)
   \<and> (\<not> adapter_exists d1 (dbFileName (loadSettings data))
        \<and> \<not> adapter_exists d2 (dbFileName (loadSettings data))
        \<longrightarrow> db (fst (onload data d1 d2 ws)) = DAList.empty
            \<and> lastSavedDb (fst (onload data d1 d2 ws)) = DAList.empty)"
proof -
  have absent: "\<not> adapter_exists d' (dbFileName s') \<Longrightarrow> readDb s' d' = Inr DAList.empty"
    for d' s'
    by (simp add: readDb_def)
  have unreadable: "adapter_exists d (dbFileName s) \<and> \<not> readable d \<longrightarrow> readDb s d = Inl IOError"
    by (simp add: readDb_def adapter_read_def split: option.splits)
  have malformed: "readable d \<and> files d (dbFileName s) = Some Malformed
      \<longrightarrow> readDb s d = Inl SyntaxError"
    by (simp add: readDb_def adapter_read_def adapter_exists_def JSON_parse_def)
  have failed: "(\<exists>e. readDb (loadSettings data) d1 = Inl e) \<or> (\<exists>e. readDb (loadSettings data) d2 = Inl e)
      \<Longrightarrow> \<exists>e. read_both (loadSettings data) d1 d2 = Inl e"
    by (auto simp: read_both_def split: sum.splits)
  have both_absent: "\<not> adapter_exists d1 (dbFileName (loadSettings data))
        \<and> \<not> adapter_exists d2 (dbFileName (loadSettings data))
      \<Longrightarrow> read_both (loadSettings data) d1 d2 = Inr (DAList.empty, DAList.empty)"
    by (simp add: read_both_def absent)
  show ?thesis
    using absent [of d s] unreadable malformed failed both_absent
      db_onload_failed [of data d1 d2 _ ws] db_onload_read [of data d1 d2 DAList.empty DAList.empty ws]
    by blast
qed

text \<open>Witness for C8: a store without the file, one whose file cannot be read, and one
  whose file is malformed.\<close>

theorem onload_survives_read_failure_witness:
  "\<not> adapter_exists (store_with None True True) (dbFileName DEFAULT_SETTINGS)
   \<and> readDb DEFAULT_SETTINGS (store_with None True True) = Inr DAList.empty
   \<and> adapter_exists (store_with (Some (Document [])) False True) (dbFileName DEFAULT_SETTINGS)
   \<and> readDb DEFAULT_SETTINGS (store_with (Some (Document [])) False True) = Inl IOError
   \<and> files (store_with (Some Malformed) True True) (dbFileName DEFAULT_SETTINGS) = Some Malformed
   \<and> readDb DEFAULT_SETTINGS (store_with (Some Malformed) True True) = Inl SyntaxError
   \<and> db (fst (onload no_data store_a (store_with (Some Malformed) True True)
        (showing ''notes/a.md'' 0))) = DAList.empty
   \<and> lastSavedDb (fst (onload no_data store_a (store_with (Some Malformed) True True)
        (showing ''notes/a.md'' 0))) = DAList.empty
   \<and> db (fst fresh_a) = DAList.empty \<and> lastSavedDb (fst fresh_a) = DAList.empty"
proof -
  have absent: "\<not> adapter_exists (store_with None True True) (dbFileName DEFAULT_SETTINGS)"
    by (simp add: adapter_exists_def store_with_def DEFAULT_SETTINGS_def)
  have unreadable: "adapter_exists (store_with (Some (Document [])) False True)
      (dbFileName DEFAULT_SETTINGS) \<and> \<not> readable (store_with (Some (Document [])) False True)"
    by (simp add: adapter_exists_def store_with_def)
  have malformed: "readable (store_with (Some Malformed) True True)
      \<and> files (store_with (Some Malformed) True True) (dbFileName DEFAULT_SETTINGS) = Some Malformed"
    by (simp add: store_with_def)
  note thm1 = onload_survives_read_failure
      [of "store_with None True True" DEFAULT_SETTINGS no_data "store_with None True True"
        "store_with None True True" "showing ''notes/a.md'' 0"]
  note thm2 = onload_survives_read_failure
      [of "store_with (Some (Document [])) False True" DEFAULT_SETTINGS no_data store_a
        "store_with (Some Malformed) True True" "showing ''notes/a.md'' 0"]
  note thm3 = onload_survives_read_failure
      [of "store_with (Some Malformed) True True" DEFAULT_SETTINGS no_data store_a
        "store_with (Some Malformed) True True" "showing ''notes/a.md'' 0"]
  have r3: "readDb DEFAULT_SETTINGS (store_with (Some Malformed) True True) = Inl SyntaxError"
    using thm3 malformed by blast
  have r1: "readDb DEFAULT_SETTINGS (store_with None True True) = Inr DAList.empty"
    using thm1 absent by blast
  have r2: "readDb DEFAULT_SETTINGS (store_with (Some (Document [])) False True) = Inl IOError"
    using thm2 unreadable by blast
  have o3: "db (fst (onload no_data store_a (store_with (Some Malformed) True True)
        (showing ''notes/a.md'' 0))) = DAList.empty
   \<and> lastSavedDb (fst (onload no_data store_a (store_with (Some Malformed) True True)
        (showing ''notes/a.md'' 0))) = DAList.empty"
    using thm3 r3 by (simp add: loadSettings_no_data)
  have o1: "db (fst fresh_a) = DAList.empty \<and> lastSavedDb (fst fresh_a) = DAList.empty"
    using thm1 absent unfolding fresh_a_def by (simp add: loadSettings_no_data)
  show ?thesis
    using absent unreadable malformed r1 r2 r3 o1 o3 by simp
qed

section \<open>Change detection\<close>

lemma isEphemeralStatesEquals_refl: "isEphemeralStatesEquals st st"
  by (simp add: isEphemeralStatesEquals_def loose_eq_truthy)

text \<open>Without a baseline the sample becomes the baseline and the cache is not written.\<close>

lemma check_without_baseline:
  "lastEphemeralState p = None \<Longrightarrow> db (checkEphemeralStateChanged ws p) = db p"
proof -
  have same: "isEphemeralStatesEquals st \<lparr>scroll = scroll_of (State st)\<rparr>" for st
    using isEphemeralStatesEquals_refl [of st] by (cases st) simp
  assume "lastEphemeralState p = None"
  then show ?thesis
    using same [of "getEphemeralState ws"]
    by (simp add: checkEphemeralStateChanged_def Let_def)
qed

text \<open>
  C5 (counterexample). The plugin has been loaded without a durable file while
  \<^verbatim>\<open>notes/a.md\<close> is shown, so there is no baseline. The first evaluation, with the
  numeric sample \<open>40\<close>, adopts the sample as the baseline and saves nothing: the cache
  has no entry for the document afterwards.
\<close>

theorem check_adopts_first_sample_unsaved:
  "activeFile (showing ''notes/a.md'' 40) = Some ''notes/a.md''
   \<and> lastLoadedFileName (fst fresh_a) = Some ''notes/a.md''
   \<and> loadingFile (fst fresh_a) = False
   \<and> scroll (getEphemeralState (showing ''notes/a.md'' 40)) = Number 40
   \<and> get_prop (db (checkEphemeralStateChanged (showing ''notes/a.md'' 40) (fst fresh_a)))
        ''notes/a.md'' = None"
  by (simp add: fresh_a_value sample_40 checkEphemeralStateChanged_def isEphemeralStatesEquals_def
      Let_def get_prop_empty)
    (simp add: showing_def)

text \<open>
  C5 (amended). For every document with a non-empty path and every numeric sample, after
  \<^verbatim>\<open>checkEphemeralStateChanged\<close> has run while the document is active,
  \<^verbatim>\<open>lastLoadedFileName\<close> is its path, no restore is in progress, and a baseline
  \<^verbatim>\<open>lastEphemeralState\<close> exists from which the sample differs for
  \<^verbatim>\<open>isEphemeralStatesEquals\<close>, the cache entry of the document has the sampled scroll.
\<close>

theorem check_saves_changed_sample:
  assumes "activeFile ws = Some D" and "D \<noteq> []"
    and "lastLoadedFileName p = Some D" and "\<not> loadingFile p"
    and "scroll (getEphemeralState ws) = Number v"
    and "lastEphemeralState p = Some baseline"
    and "\<not> isEphemeralStatesEquals (getEphemeralState ws) \<lparr>scroll = scroll_of baseline\<rparr>"
  shows "get_prop (db (checkEphemeralStateChanged ws p)) D = Some (State \<lparr>scroll = Number v\<rparr>)"
proof -
  have st: "getEphemeralState ws = \<lparr>scroll = Number v\<rparr>"
    using assms(5) by (cases "getEphemeralState ws") simp
  show ?thesis
    using assms(1-4,6,7) unfolding st
    by (simp add: checkEphemeralStateChanged_def saveEphemeralState_def Let_def st
        get_prop_set_prop)
qed

text \<open>Witness for C5: \<^verbatim>\<open>notes/a.md\<close> restored at \<open>12.5\<close>, then sampled at \<open>40\<close>.\<close>

theorem check_saves_changed_sample_witness:
  "activeFile (showing ''notes/a.md'' 40) = Some ''notes/a.md''
   \<and> ''notes/a.md'' \<noteq> []
   \<and> lastLoadedFileName (fst restored_a) = Some ''notes/a.md''
   \<and> loadingFile (fst restored_a) = False
   \<and> scroll (getEphemeralState (showing ''notes/a.md'' 40)) = Number 40
   \<and> lastEphemeralState (fst restored_a) = Some (State \<lparr>scroll = Number 12.5\<rparr>)
   \<and> isEphemeralStatesEquals (getEphemeralState (showing ''notes/a.md'' 40))
        \<lparr>scroll = scroll_of (State \<lparr>scroll = Number 12.5\<rparr>)\<rparr> = False
   \<and> get_prop (db (checkEphemeralStateChanged (showing ''notes/a.md'' 40) (fst restored_a)))
        ''notes/a.md'' = Some (State \<lparr>scroll = Number 40\<rparr>)"
proof -
  have active: "activeFile (showing ''notes/a.md'' 40) = Some ''notes/a.md''"
    by (simp add: showing_def)
  have differs: "\<not> isEphemeralStatesEquals (getEphemeralState (showing ''notes/a.md'' 40))
      \<lparr>scroll = scroll_of (State \<lparr>scroll = Number 12.5\<rparr>)\<rparr>"
    by (simp add: sample_40 isEphemeralStatesEquals_def)
  show ?thesis
    using check_saves_changed_sample [of "showing ''notes/a.md'' 40" "''notes/a.md''"
        "fst restored_a" 40 "State \<lparr>scroll = Number 12.5\<rparr>"] active differs
    by (simp add: restored_a_value sample_40)
qed

section \<open>Restoring\<close>

lemma setEphemeralState_falsy: "\<not> truthy (scroll_of v) \<Longrightarrow> setEphemeralState ws v = ws"
  by (simp add: setEphemeralState_def split: option.splits)

lemma snd_settle_Settling:
  "snd (settle ws2 ws3 (p, Settling f st)) = (if flashing ws2 then ws3 else setEphemeralState ws3 st)"
  by (simp add: settle_def)

lemma snd_settle_Finished: "snd (settle ws2 ws3 (p, Finished)) = ws3"
  by (simp add: settle_def)

lemma task_restoreEphemeralState:
  "activeFile ws = Some f \<Longrightarrow>
   snd (restoreEphemeralState ws p) = Finished
   \<or> (\<exists>st. get_prop (db p) f = Some st \<and> snd (restoreEphemeralState ws p) = Settling f st)"
  by (simp add: restoreEphemeralState_def Let_def split: option.splits)

text \<open>
  C10. For every saved state whose \<^verbatim>\<open>scroll\<close> is \<open>0\<close> or undefined,
  \<^verbatim>\<open>setEphemeralState\<close> leaves the workspace as it is, and so does the step of a restore
  that applies the state; a whole restore for a document whose saved state is such a
  state leaves the view where the host has put it.
\<close>

theorem zero_scroll_never_restored:
  assumes "scroll st = Number 0 \<or> scroll st = Undefined"
  shows "setEphemeralState ws (State st) = ws
    \<and> snd (snd (resume ws (Applying f (State st)) p')) = ws
    \<and> (activeFile ws1 = Some f \<and> get_prop (db p) f = Some (State st)
         \<longrightarrow> snd (restore_run ws1 ws2 ws3 p) = ws3)"
proof -
  have falsy: "\<not> truthy (scroll_of (State st))" using assms by auto
  have run: "snd (restore_run ws1 ws2 ws3 p) = ws3"
    if "activeFile ws1 = Some f" "get_prop (db p) f = Some (State st)"
  proof -
    obtain p1 t1 where r: "restoreEphemeralState ws1 p = (p1, t1)"
      by (cases "restoreEphemeralState ws1 p")
    from task_restoreEphemeralState [OF that(1), of p] that(2) r
    have "t1 = Finished \<or> t1 = Settling f (State st)" by auto
    then show ?thesis
      by (auto simp: restore_run_def r snd_settle_Settling snd_settle_Finished
          setEphemeralState_falsy [OF falsy])
  qed
  show ?thesis
    using run by (simp add: setEphemeralState_falsy [OF falsy])
qed

text \<open>Witness for C10: \<^verbatim>\<open>notes/a.md\<close>, saved at \<open>0\<close>, is opened; the restore gets as far
  as waiting for the delay with the saved state, and the view, at \<open>30\<close>, stays there.\<close>

theorem zero_scroll_never_restored_witness:
  "scroll \<lparr>scroll = Number 0\<rparr> = Number 0
   \<and> setEphemeralState (showing ''notes/a.md'' 30) (State \<lparr>scroll = Number 0\<rparr>)
       = showing ''notes/a.md'' 30
   \<and> activeFile (showing ''notes/a.md'' 30) = Some ''notes/a.md''
   \<and> get_prop (db (fst started_top)) ''notes/a.md'' = Some (State \<lparr>scroll = Number 0\<rparr>)
   \<and> snd (restoreEphemeralState (showing ''notes/a.md'' 30) (fst started_top))
       = Settling ''notes/a.md'' (State \<lparr>scroll = Number 0\<rparr>)
   \<and> snd (restore_run (showing ''notes/a.md'' 30) (showing ''notes/a.md'' 30)
        (showing ''notes/a.md'' 30) (fst started_top))
       = showing ''notes/a.md'' 30"
proof -
  have active: "activeFile (showing ''notes/a.md'' 30) = Some ''notes/a.md''"
    by (simp add: showing_def)
  have saved: "get_prop (db (fst started_top)) ''notes/a.md''
      = Some (State \<lparr>scroll = Number 0\<rparr>)"
    by (simp add: started_top_value get_prop_set_prop)
  have waits: "snd (restoreEphemeralState (showing ''notes/a.md'' 30) (fst started_top))
       = Settling ''notes/a.md'' (State \<lparr>scroll = Number 0\<rparr>)"
    by (simp add: started_top_value restoreEphemeralState_def showing_def leaf_key_def
        get_prop_set_prop Let_def)
  show ?thesis
    using zero_scroll_never_restored [of "\<lparr>scroll = Number 0\<rparr>" "showing ''notes/a.md'' 30"
        "''notes/a.md''" "fst started_top" "showing ''notes/a.md'' 30" "fst started_top"
        "showing ''notes/a.md'' 30" "showing ''notes/a.md'' 30"] active saved waits
    by simp
qed

text \<open>The step that applies a saved state scrolls whatever view is active then; the
  active file is not read.\<close>

lemma resume_Applying_scrolls_active_view:
  "activeView ws = Some view \<Longrightarrow> truthy (scroll_of st) \<Longrightarrow>
   snd (snd (resume ws (Applying fileName st) p))
     = ws\<lparr>activeView := Some (view\<lparr>getScroll := scroll_of st\<rparr>)\<rparr>"
  by (simp add: setEphemeralState_def)

text \<open>
  C3 (the code when the user navigates during the delay). The restore started for
  \<^verbatim>\<open>notes/a.md\<close> waits with the state saved for it. Before the delay ends the user
  opens \<^verbatim>\<open>notes/b.md\<close>, which has no saved state, so the restore for it ends at once.
  When the first restore resumes, \<^verbatim>\<open>notes/b.md\<close> is the active document, no span is
  flashing, and \<^verbatim>\<open>setEphemeralState\<close> scrolls the active view to \<open>12.5\<close>, the position
  saved for \<^verbatim>\<open>notes/a.md\<close>: neither resumption compares the active document with
  \<^verbatim>\<open>fileName\<close>.
\<close>

theorem restore_applies_to_other_document:
  "snd started_a = Settling ''notes/a.md'' (State \<lparr>scroll = Number 12.5\<rparr>)
   \<and> snd opened_b = Finished
   \<and> activeFile (showing ''notes/b.md'' 0) = Some ''notes/b.md''
   \<and> snd (settle (showing ''notes/b.md'' 0) (showing ''notes/b.md'' 0)
        (fst opened_b, snd started_a))
       = showing ''notes/b.md'' 12.5"
  by (simp add: started_a_value opened_b_value settle_def)
    (simp add: showing_def setEphemeralState_def)

end
